theory Spec2Isabelle
  imports Complex_Main "HOL-Library.Word"
begin

unbundle bit_operations_syntax

section \<open>Platform values used by the live-voice session\<close>

text \<open>
  The session manager is the React component \<^verbatim>\<open>LiveVoice\<close> together with the codec
  helpers of \<^verbatim>\<open>services/geminiService.ts\<close>. JavaScript numbers that carry samples and
  audio-clock times are modelled as \<^typ>\<open>real\<close> (rounding of doubles is not modelled),
  typed-array elements as machine words, and strings as \<^typ>\<open>string\<close>, one
  \<^typ>\<open>char\<close> per code unit below 256. An exception that leaves a function is a value
  of \<open>js_error\<close>.
\<close>

type_synonym byte = "8 word"
type_synonym int16 = "16 word"

datatype js_error = InvalidCharacterError | RangeError | NotSupportedError

subsection \<open>\<^verbatim>\<open>btoa\<close> and \<^verbatim>\<open>atob\<close>\<close>

text \<open>
  The two browser functions follow the base64 encoding and the forgiving base64 decoding
  of the platform standard: \<^verbatim>\<open>btoa\<close> writes three octets as four characters of the
  alphabet and pads with \<^verbatim>\<open>=\<close>; \<^verbatim>\<open>atob\<close> removes ASCII whitespace, removes one
  or two trailing \<^verbatim>\<open>=\<close> when the length is a multiple of four, rejects a length that
  leaves remainder one and any character outside the alphabet, and reads six bits per
  character, dropping the four or two bits left over at the end. \<^verbatim>\<open>btoa\<close> rejects a
  code unit above 255; a \<^typ>\<open>char\<close> has none, and \<^verbatim>\<open>encodeAudioData\<close> passes none.
\<close>

definition b64_alphabet :: string where
  "b64_alphabet = ''ABCDEFGHIJKLMNOPQRSTUVWXYZabcdefghijklmnopqrstuvwxyz0123456789+/''"

definition b64_char :: "nat \<Rightarrow> char" where
  "b64_char i = b64_alphabet ! i"

fun position :: "'a list \<Rightarrow> 'a \<Rightarrow> nat option" where
  "position [] c = None"
| "position (a # as) c = (if a = c then Some 0 else map_option Suc (position as c))"

definition b64_value :: "char \<Rightarrow> nat option" where
  "b64_value c = position b64_alphabet c"

fun sextets :: "nat list \<Rightarrow> nat list" where
  "sextets [] = []"
| "sextets [x] = [x div 4, x mod 4 * 16]"
| "sextets [x, y] = [x div 4, x mod 4 * 16 + y div 16, y mod 16 * 4]"
| "sextets (x # y # z # rest) =
     [x div 4, x mod 4 * 16 + y div 16, y mod 16 * 4 + z div 64, z mod 64] @ sextets rest"

definition padding :: "nat \<Rightarrow> string" where
  "padding n = replicate ((3 - n mod 3) mod 3) (CHR ''='')"

definition btoa :: "string \<Rightarrow> string" where
  "btoa s = map b64_char (sextets (map of_char s)) @ padding (length s)"

definition ascii_whitespace :: "char \<Rightarrow> bool" where
  "ascii_whitespace c \<longleftrightarrow> c \<in> set [CHR 0x09, CHR 0x0A, CHR 0x0C, CHR 0x0D, CHR 0x20]"

definition strip_padding :: "string \<Rightarrow> string" where
  "strip_padding d =
     (if d \<noteq> [] \<and> last d = CHR ''='' then
        (if butlast d \<noteq> [] \<and> last (butlast d) = CHR ''='' then butlast (butlast d)
         else butlast d)
      else d)"

fun octets :: "nat list \<Rightarrow> nat list" where
  "octets (a # b # c # d # rest) =
     (let n = ((a * 64 + b) * 64 + c) * 64 + d
      in [n div 65536, n div 256 mod 256, n mod 256] @ octets rest)"
| "octets [a, b, c] = (let n = ((a * 64 + b) * 64 + c) div 4 in [n div 256, n mod 256])"
| "octets [a, b] = [(a * 64 + b) div 16]"
| "octets _ = []"

definition atob :: "string \<Rightarrow> js_error + string" where
  "atob s =
     (let d = filter (\<lambda>c. \<not> ascii_whitespace c) s;
          d' = (if length d mod 4 = 0 then strip_padding d else d)
      in if length d' mod 4 = 1 then Inl InvalidCharacterError
         else (case those (map b64_value d') of
                 None \<Rightarrow> Inl InvalidCharacterError
               | Some vs \<Rightarrow> Inr (map char_of (octets vs))))"

subsection \<open>The transport encoding (\<^verbatim>\<open>geminiService.ts\<close>)\<close>

text \<open>
  \<^verbatim>\<open>decodeAudioData\<close> copies the code units of \<^verbatim>\<open>atob(base64)\<close> into a byte array;
  \<^verbatim>\<open>encodeAudioData\<close> builds a string with one code unit per byte and returns its
  \<^verbatim>\<open>btoa\<close>.
\<close>

definition decodeAudioData :: "string \<Rightarrow> js_error + byte list" where
  "decodeAudioData base64 =
     (case atob base64 of
        Inl e \<Rightarrow> Inl e
      | Inr binaryString \<Rightarrow> Inr (map (\<lambda>c. word_of_nat (of_char c)) binaryString))"

definition encodeAudioData :: "byte list \<Rightarrow> string" where
  "encodeAudioData bytes = btoa (map (\<lambda>b. char_of (unat b)) bytes)"

subsection \<open>Typed-array views and sample conversion\<close>

text \<open>
  \<^verbatim>\<open>new Uint8Array(int16.buffer)\<close> shows each 16-bit element as two bytes, low byte
  first (the byte order of the platforms a browser runs on);
  \<^verbatim>\<open>new Int16Array(data.buffer)\<close> reads them back and throws a \<^verbatim>\<open>RangeError\<close> when
  the byte length is odd.
\<close>

fun bytes_of_int16 :: "int16 list \<Rightarrow> byte list" where
  "bytes_of_int16 [] = []"
| "bytes_of_int16 (w # ws) = ucast w # ucast (drop_bit 8 w) # bytes_of_int16 ws"

fun int16_of_bytes :: "byte list \<Rightarrow> js_error + int16 list" where
  "int16_of_bytes [] = Inr []"
| "int16_of_bytes [b] = Inl RangeError"
| "int16_of_bytes (lo # hi # bs) =
     (case int16_of_bytes bs of
        Inl e \<Rightarrow> Inl e
      | Inr ws \<Rightarrow> Inr (word_cat hi lo # ws))"

text \<open>
  Storing a number into an \<^verbatim>\<open>Int16Array\<close> truncates it towards zero and keeps the low
  16 bits. The loop body of \<^verbatim>\<open>createBlob\<close> is \<^verbatim>\<open>int16[i] = data[i] * 32768\<close>; the
  loop body of \<^verbatim>\<open>convertPCMToAudioBuffer\<close> divides a signed element by \<^verbatim>\<open>32768.0\<close>.
\<close>

definition toInteger :: "real \<Rightarrow> int" where
  "toInteger r = (if 0 \<le> r then \<lfloor>r\<rfloor> else \<lceil>r\<rceil>)"

definition floatToPcm16 :: "real \<Rightarrow> int16" where
  "floatToPcm16 x = word_of_int (toInteger (x * 32768))"

definition pcm16ToFloat :: "int16 \<Rightarrow> real" where
  "pcm16ToFloat w = real_of_int (sint w) / 32768"

record blob =
  blob_data :: string
  mimeType :: string

definition createBlob :: "real list \<Rightarrow> blob" where
  "createBlob data =
     \<lparr> blob_data = encodeAudioData (bytes_of_int16 (map floatToPcm16 data)),
       mimeType = ''audio/pcm;rate=16000'' \<rparr>"

record audio_buffer =
  numberOfChannels :: nat
  frames :: nat
  sampleRate :: nat
  channelData :: "real list list"

definition duration :: "audio_buffer \<Rightarrow> real" where
  "duration b = real (frames b) / real (sampleRate b)"

text \<open>
  \<^verbatim>\<open>ctx.createBuffer(numChannels, frameCount, sampleRate)\<close> allocates silent channels.
  The audio device rejects a channel count, a frame count or a rate of zero with a
  \<^verbatim>\<open>NotSupportedError\<close>; a fractional frame count is truncated when it is passed.
\<close>

definition createBuffer :: "nat \<Rightarrow> nat \<Rightarrow> nat \<Rightarrow> js_error + audio_buffer" where
  "createBuffer numChannels frameCount rate =
     (if numChannels = 0 \<or> frameCount = 0 \<or> rate = 0 then Inl NotSupportedError
      else Inr \<lparr> numberOfChannels = numChannels, frames = frameCount, sampleRate = rate,
                 channelData = replicate numChannels (replicate frameCount 0) \<rparr>)"

definition convertPCMToAudioBuffer :: "byte list \<Rightarrow> nat \<Rightarrow> nat \<Rightarrow> js_error + audio_buffer" where
  "convertPCMToAudioBuffer data rate numChannels =
     (case int16_of_bytes data of
        Inl e \<Rightarrow> Inl e
      | Inr dataInt16 \<Rightarrow>
          (case createBuffer numChannels (length dataInt16 div numChannels) rate of
             Inl e \<Rightarrow> Inl e
           | Inr buffer \<Rightarrow>
               Inr (buffer \<lparr> channelData :=
                      map (\<lambda>channel.
                             map (\<lambda>i. pcm16ToFloat (dataInt16 ! (i * numChannels + channel)))
                               [0 ..< frames buffer])
                        [0 ..< numChannels] \<rparr>)))"

text \<open>
  The audio branch of the message handler decodes with
  \<^verbatim>\<open>convertPCMToAudioBuffer(decodeAudioData(base64Audio), ctx, 24000, 1)\<close>; the argument
  is evaluated first, so a failure of \<^verbatim>\<open>atob\<close> comes before a failure of the view.
\<close>

definition decodeInbound :: "string \<Rightarrow> js_error + audio_buffer" where
  "decodeInbound base64Audio =
     (case decodeAudioData base64Audio of
        Inl e \<Rightarrow> Inl e
      | Inr bytes \<Rightarrow> convertPCMToAudioBuffer bytes 24000 1)"

section \<open>The \<^verbatim>\<open>LiveVoice\<close> session\<close>

subsection \<open>State\<close>

text \<open>
  One record holds the component's \<^verbatim>\<open>useState\<close> values and \<^verbatim>\<open>useRef\<close> cells. Each
  callback runs to its end before the next one starts, and React renders the component
  between two callbacks. No callback reads a state value, so a setter that is given a
  value is modelled as writing it at the call. A setter that is given an updater function
  does not run it: React runs it at the next render, with the cells as they are then.
  Four more fields record what the component did to its
  surroundings: the source nodes it started and stopped, and how often it asked for the
  microphone and opened a remote session. The selected voice and language, which only
  go into the configuration sent to the remote session, and the scroll container are left
  out.
\<close>

datatype status = Disconnected | Connecting | Connected | Error

datatype role = User | Model

record chat_message =
  msg_id :: string
  msg_role :: role
  msg_text :: string
  msg_timestamp :: nat

datatype audio_context = AudioContext nat

datatype media_stream = Live | Stopped

datatype script_processor = Wired | Unwired

record source_node =
  node_id :: nat
  node_buffer :: audio_buffer
  node_when :: real

record session =
  isConnected :: bool
  status :: status
  volume :: real
  errorMessage :: string
  permissionDenied :: bool
  transcript :: "chat_message list"
  realtimeText :: "(role \<times> string) option"
  audioContextRef :: "audio_context option"
  inputContextRef :: "audio_context option"
  sessionRef :: "nat option"
  nextStartTimeRef :: real
  sourcesRef :: "source_node list"
  streamRef :: "media_stream option"
  processorRef :: "script_processor option"
  currentInputBuffer :: string
  currentOutputBuffer :: string
  started :: "source_node list"
  stopped :: "source_node list"
  micRequests :: nat
  remoteSessions :: nat

definition LiveVoice_init :: session where
  "LiveVoice_init =
     \<lparr> isConnected = False, status = Disconnected, volume = 0, errorMessage = [],
       permissionDenied = False, transcript = [], realtimeText = None,
       audioContextRef = None, inputContextRef = None, sessionRef = None,
       nextStartTimeRef = 0, sourcesRef = [], streamRef = None, processorRef = None,
       currentInputBuffer = [], currentOutputBuffer = [],
       started = [], stopped = [], micRequests = 0, remoteSessions = 0 \<rparr>"

subsection \<open>String helpers of the language\<close>

definition js_whitespace :: "char \<Rightarrow> bool" where
  "js_whitespace c \<longleftrightarrow>
     c \<in> set [CHR 0x09, CHR 0x0A, CHR 0x0B, CHR 0x0C, CHR 0x0D, CHR 0x20, CHR 0xA0]"

definition trim :: "string \<Rightarrow> string" where
  "trim s = rev (dropWhile js_whitespace (rev (dropWhile js_whitespace s)))"

fun toString :: "nat \<Rightarrow> string" where
  "toString n =
     (if n < 10 then [char_of (48 + n)]
      else toString (n div 10) @ [char_of (48 + n mod 10)])"

declare toString.simps [simp del]

fun startsWith :: "string \<Rightarrow> string \<Rightarrow> bool" where
  "startsWith s [] = True"
| "startsWith [] (c # t) = False"
| "startsWith (a # s) (c # t) = (a = c \<and> startsWith s t)"

fun str_includes :: "string \<Rightarrow> string \<Rightarrow> bool" where
  "str_includes [] t = (t = [])"
| "str_includes (a # s) t = (startsWith (a # s) t \<or> str_includes s t)"

subsection \<open>\<^verbatim>\<open>connect\<close>\<close>

text \<open>
  What \<^verbatim>\<open>connect\<close> awaits is decided outside the component: whether the constructor
  of the output context throws, whether the constructor of the input context throws,
  whether the output context is suspended and its \<^verbatim>\<open>resume\<close> fails, and whether
  \<^verbatim>\<open>getUserMedia\<close> grants the microphone. \<^verbatim>\<open>initAudio\<close> constructs a context only
  for an empty cell; when a later step throws, the cells written before it stay written.
\<close>

record js_exception =
  exc_name :: string
  exc_message :: string

record connect_env =
  outputContext_throws :: "js_exception option"
  inputContext_throws :: "js_exception option"
  resume_throws :: "js_exception option"
  mic_granted :: bool

definition initAudio :: "session \<Rightarrow> connect_env \<Rightarrow> session \<times> js_exception option" where
  "initAudio s env =
     (if audioContextRef s = None \<and> outputContext_throws env \<noteq> None
      then (s, outputContext_throws env)
      else
        (let s1 = (if audioContextRef s = None
                   then s \<lparr> audioContextRef := Some (AudioContext 24000) \<rparr> else s)
         in if inputContextRef s1 = None \<and> inputContext_throws env \<noteq> None
            then (s1, inputContext_throws env)
            else
              (let s2 = (if inputContextRef s1 = None
                         then s1 \<lparr> inputContextRef := Some (AudioContext 16000) \<rparr> else s1)
               in (s2, resume_throws env))))"

definition connect_catch :: "session \<Rightarrow> js_exception \<Rightarrow> session" where
  "connect_catch s exc =
     (let s1 = s \<lparr> status := Error \<rparr>;
          s2 = (if str_includes (exc_message exc) ''Microphone''
                   \<or> exc_name exc = ''NotAllowedError''
                   \<or> exc_name exc = ''PermissionDeniedError''
                then s1 \<lparr> errorMessage :=
                       ''Microphone access was denied. Please allow microphone permissions in your browser settings and reload the page.'',
                     permissionDenied := True \<rparr>
                else s1 \<lparr> errorMessage := ''Failed to connect. Please try again.'' \<rparr>)
      in s2 \<lparr> isConnected := False \<rparr>)"

definition connect :: "session \<Rightarrow> connect_env \<Rightarrow> session" where
  "connect s env =
     (let s1 = s \<lparr> errorMessage := [], status := Connecting, permissionDenied := False,
                   transcript := [], currentInputBuffer := [], currentOutputBuffer := [] \<rparr>
      in case initAudio s1 env of
           (s2, Some exc) \<Rightarrow> connect_catch s2 exc
         | (s2, None) \<Rightarrow>
             (let s3 = s2 \<lparr> micRequests := Suc (micRequests s2) \<rparr>
              in if mic_granted env
                 then s3 \<lparr> streamRef := Some Live,
                          sessionRef := Some (remoteSessions s3),
                          remoteSessions := Suc (remoteSessions s3) \<rparr>
                 else connect_catch (s3 \<lparr> permissionDenied := True \<rparr>)
                        \<lparr> exc_name = ''Error'',
                          exc_message = ''Microphone permission denied'' \<rparr>))"

subsection \<open>Callbacks of the remote session\<close>

definition onopen :: "session \<Rightarrow> session" where
  "onopen s =
     (let s1 = s \<lparr> status := Connected, isConnected := True \<rparr>
      in if inputContextRef s1 \<noteq> None \<and> streamRef s1 \<noteq> None
         then s1 \<lparr> processorRef := Some Wired \<rparr> else s1)"

record server_message =
  inputTranscription :: "string option"
  outputTranscription :: "string option"
  turnComplete :: bool
  audio :: "string option"
  interrupted :: bool

definition onInputTranscription :: "session \<Rightarrow> server_message \<Rightarrow> session" where
  "onInputTranscription s m =
     (case inputTranscription m of
        None \<Rightarrow> s
      | Some text \<Rightarrow>
          if text \<noteq> [] then
            s \<lparr> currentInputBuffer := currentInputBuffer s @ text,
                realtimeText := Some (User, currentInputBuffer s @ text) \<rparr>
          else s)"

definition onOutputTranscription :: "session \<Rightarrow> server_message \<Rightarrow> session" where
  "onOutputTranscription s m =
     (case outputTranscription m of
        None \<Rightarrow> s
      | Some text \<Rightarrow>
          if text \<noteq> [] then
            s \<lparr> currentOutputBuffer := currentOutputBuffer s @ text,
                realtimeText := Some (Model, currentOutputBuffer s @ text) \<rparr>
          else s)"

text \<open>
  The turn-complete branch hands \<^verbatim>\<open>setTranscript\<close> an updater and then empties the
  buffer cell. The updater builds the entry when React runs it: it reads \<^verbatim>\<open>Date.now()\<close>
  for the identity, the buffer cell for the text, and \<^verbatim>\<open>Date.now()\<close> again for the
  timestamp. A \<open>wall_clock\<close> gives the readings of \<^verbatim>\<open>Date.now()\<close> in the order in which
  they are taken.
\<close>

type_synonym wall_clock = "nat \<Rightarrow> nat"

definition user_entry :: "nat \<Rightarrow> nat \<Rightarrow> string \<Rightarrow> chat_message" where
  "user_entry idNow stampNow cell =
     \<lparr> msg_id = toString idNow @ ''-user'', msg_role = User,
       msg_text = trim cell, msg_timestamp = stampNow \<rparr>"

definition model_entry :: "nat \<Rightarrow> nat \<Rightarrow> string \<Rightarrow> chat_message" where
  "model_entry idNow stampNow cell =
     \<lparr> msg_id = toString idNow @ ''-model'', msg_role = Model,
       msg_text = trim cell, msg_timestamp = stampNow \<rparr>"

definition run_updater :: "session \<Rightarrow> nat \<Rightarrow> nat \<Rightarrow> role \<Rightarrow> session" where
  "run_updater s idNow stampNow r =
     s \<lparr> transcript := transcript s @
           [case r of
              User \<Rightarrow> user_entry idNow stampNow (currentInputBuffer s)
            | Model \<Rightarrow> model_entry idNow stampNow (currentOutputBuffer s)] \<rparr>"

text \<open>
  \<open>render s now k rs\<close> runs the queued updaters \<open>rs\<close> in order, \<open>k\<close> readings of the
  clock having been taken before.
\<close>

fun render :: "session \<Rightarrow> wall_clock \<Rightarrow> nat \<Rightarrow> role list \<Rightarrow> session" where
  "render s now k [] = s"
| "render s now k (r # rs) = render (run_updater s (now k) (now (Suc k)) r) now (k + 2) rs"

text \<open>
  The branches that follow in the handler write neither the transcript nor any text into
  a buffer, and the render comes before the next callback: the updaters queued by the
  turn-complete branch find the cells as this branch leaves them, so the model runs them
  at its end.
\<close>

definition onTurnComplete :: "session \<Rightarrow> wall_clock \<Rightarrow> server_message \<Rightarrow> session" where
  "onTurnComplete s now m =
     (if turnComplete m then
        (let userCommits = (trim (currentInputBuffer s) \<noteq> []);
             s1 = (if userCommits then s \<lparr> currentInputBuffer := [] \<rparr> else s);
             modelCommits = (trim (currentOutputBuffer s1) \<noteq> []);
             s2 = (if modelCommits then s1 \<lparr> currentOutputBuffer := [] \<rparr> else s1);
             s3 = s2 \<lparr> realtimeText := None \<rparr>
         in render s3 now 0
              ((if userCommits then [User] else []) @ (if modelCommits then [Model] else [])))
      else s)"

definition transcript_branches :: "session \<Rightarrow> wall_clock \<Rightarrow> server_message \<Rightarrow> session" where
  "transcript_branches s now m =
     onTurnComplete (onOutputTranscription (onInputTranscription s m) m) now m"

text \<open>
  The audio branch runs when the payload is a non-empty string and an output context
  exists. It raises \<open>nextStartTimeRef\<close> to the device clock before it decodes; an
  exception of the decoding leaves the handler there, with the cell already written.
\<close>

definition onAudio :: "session \<Rightarrow> real \<Rightarrow> server_message \<Rightarrow> session \<times> js_error option" where
  "onAudio s currentTime m =
     (case audio m of
        None \<Rightarrow> (s, None)
      | Some base64Audio \<Rightarrow>
          if base64Audio \<noteq> [] \<and> audioContextRef s \<noteq> None then
            (let s1 = s \<lparr> nextStartTimeRef := max (nextStartTimeRef s) currentTime \<rparr>
             in case decodeInbound base64Audio of
                  Inl e \<Rightarrow> (s1, Some e)
                | Inr audioBuffer \<Rightarrow>
                    (let source = \<lparr> node_id = length (started s1),
                                     node_buffer = audioBuffer,
                                     node_when = nextStartTimeRef s1 \<rparr>
                     in (s1 \<lparr> started := started s1 @ [source],
                              nextStartTimeRef := nextStartTimeRef s1 + duration audioBuffer,
                              sourcesRef := sourcesRef s1 @ [source] \<rparr>, None)))
          else (s, None))"

definition onInterrupted :: "session \<Rightarrow> server_message \<Rightarrow> session" where
  "onInterrupted s m =
     (if interrupted m then
        s \<lparr> stopped := stopped s @ sourcesRef s,
            sourcesRef := [],
            nextStartTimeRef := 0,
            currentOutputBuffer := [],
            realtimeText := None \<rparr>
      else s)"

definition onmessage ::
  "session \<Rightarrow> wall_clock \<Rightarrow> real \<Rightarrow> server_message \<Rightarrow> session \<times> js_error option" where
  "onmessage s now currentTime m =
     (case onAudio (transcript_branches s now m) currentTime m of
        (s4, Some e) \<Rightarrow> (s4, Some e)
      | (s4, None) \<Rightarrow> (onInterrupted s4 m, None))"

text \<open>The \<^verbatim>\<open>ended\<close> listener of a source removes it from the active set.\<close>

definition onended :: "session \<Rightarrow> source_node \<Rightarrow> session" where
  "onended s source = s \<lparr> sourcesRef := removeAll source (sourcesRef s) \<rparr>"

definition onclose :: "session \<Rightarrow> session" where
  "onclose s = s \<lparr> status := Disconnected, isConnected := False \<rparr>"

definition onerror :: "session \<Rightarrow> session" where
  "onerror s =
     s \<lparr> errorMessage := ''Connection error. Check console for details.'',
         status := Error, isConnected := False \<rparr>"

subsection \<open>\<^verbatim>\<open>disconnect\<close> and the button\<close>

text \<open>
  \<^verbatim>\<open>disconnect\<close> closes the remote session, stops the tracks of the stream, unwires the
  processor, closes both contexts and clears their cells, stops and forgets every source,
  and resets the displayed state. Closing the remote session leaves no trace in the
  record; \<open>sessionRef\<close> and \<open>nextStartTimeRef\<close> are not written.
\<close>

definition disconnect :: "session \<Rightarrow> session" where
  "disconnect s =
     (let s1 = (if streamRef s \<noteq> None then s \<lparr> streamRef := Some Stopped \<rparr> else s);
          s2 = (if processorRef s1 \<noteq> None then s1 \<lparr> processorRef := Some Unwired \<rparr> else s1);
          s3 = s2 \<lparr> inputContextRef := None, audioContextRef := None \<rparr>
      in s3 \<lparr> stopped := stopped s3 @ sourcesRef s3,
              sourcesRef := [],
              status := Disconnected, isConnected := False, volume := 0,
              errorMessage := [], permissionDenied := False, realtimeText := None \<rparr>)"

text \<open>
  The button is rendered with
  \<^verbatim>\<open>onClick={isConnected ? disconnect : connect}\<close> and
  \<^verbatim>\<open>disabled={permissionDenied || status === 'connecting'}\<close>; a disabled button
  delivers no click.
\<close>

definition button_disabled :: "session \<Rightarrow> bool" where
  "button_disabled s \<longleftrightarrow> permissionDenied s \<or> status s = Connecting"

definition onClick :: "session \<Rightarrow> connect_env \<Rightarrow> session" where
  "onClick s env =
     (if button_disabled s then s
      else if isConnected s then disconnect s
      else connect s env)"

text \<open>Messages are handled in delivery order; an exception of one call does not stop the next.\<close>

fun deliver :: "session \<Rightarrow> (wall_clock \<times> real \<times> server_message) list \<Rightarrow> session" where
  "deliver s [] = s"
| "deliver s ((now, currentTime, m) # evs) = deliver (fst (onmessage s now currentTime m)) evs"

subsection \<open>Messages of one kind, and sessions used as examples\<close>

definition input_delta :: "string \<Rightarrow> server_message" where
  "input_delta text =
     \<lparr> inputTranscription = Some text, outputTranscription = None, turnComplete = False,
       audio = None, interrupted = False \<rparr>"

definition output_delta :: "string \<Rightarrow> server_message" where
  "output_delta text =
     \<lparr> inputTranscription = None, outputTranscription = Some text, turnComplete = False,
       audio = None, interrupted = False \<rparr>"

definition turn_complete_signal :: server_message where
  "turn_complete_signal =
     \<lparr> inputTranscription = None, outputTranscription = None, turnComplete = True,
       audio = None, interrupted = False \<rparr>"

definition audio_payload :: "string \<Rightarrow> server_message" where
  "audio_payload base64Audio =
     \<lparr> inputTranscription = None, outputTranscription = None, turnComplete = False,
       audio = Some base64Audio, interrupted = False \<rparr>"

definition interrupted_signal :: server_message where
  "interrupted_signal =
     \<lparr> inputTranscription = None, outputTranscription = None, turnComplete = False,
       audio = None, interrupted = True \<rparr>"

definition mic_allowed :: connect_env where
  "mic_allowed =
     \<lparr> outputContext_throws = None, inputContext_throws = None, resume_throws = None,
       mic_granted = True \<rparr>"

definition mic_refused :: connect_env where
  "mic_refused =
     \<lparr> outputContext_throws = None, inputContext_throws = None, resume_throws = None,
       mic_granted = False \<rparr>"

text \<open>A clock that gives the same reading every time.\<close>

definition steady :: "nat \<Rightarrow> wall_clock" where
  "steady n k = n"

text \<open>
  \<open>open_session\<close> is the initial state after a granted \<^verbatim>\<open>connect\<close> and the open
  callback. \<open>live_session\<close> has then heard one turn and has one frame of one sample
  queued, scheduled when the device clock read 5 seconds.
\<close>

definition open_session :: session where
  "open_session = onopen (connect LiveVoice_init mic_allowed)"

definition live_session :: session where
  "live_session =
     deliver open_session
       [(steady 1000, 0, input_delta ''hello''),
        (steady 1001, 0, output_delta ''hi there''),
        (steady 1002, 0, turn_complete_signal),
        (steady 1003, 5, audio_payload ''AAA='')]"


subsection \<open>Reachable states\<close>

text \<open>
  The component only changes state through a click on its button, the callbacks of the
  remote session, the \<^verbatim>\<open>ended\<close> event of a source, and the \<^verbatim>\<open>disconnect\<close> of its
  unmount effect.
\<close>

inductive reachable :: "session \<Rightarrow> bool" where
  initial: "reachable LiveVoice_init"
| click: "reachable s \<Longrightarrow> reachable (onClick s env)"
| opened: "reachable s \<Longrightarrow> reachable (onopen s)"
| message: "reachable s \<Longrightarrow> reachable (fst (onmessage s now currentTime m))"
| ended: "reachable s \<Longrightarrow> reachable (onended s source)"
| closed: "reachable s \<Longrightarrow> reachable (onclose s)"
| failed: "reachable s \<Longrightarrow> reachable (onerror s)"
| unmounted: "reachable s \<Longrightarrow> reachable (disconnect s)"

section \<open>Facts about the codec\<close>

subsection \<open>Base64\<close>

lemma position_nth:
  "distinct xs \<Longrightarrow> i < length xs \<Longrightarrow> position xs (xs ! i) = Some i"
proof (induction xs arbitrary: i)
  case Nil
  then show ?case by simp
next
  case (Cons a xs)
  show ?case
  proof (cases i)
    case 0
    then show ?thesis by simp
  next
    case (Suc j)
    with Cons.prems have "xs ! j \<noteq> a" and "position xs (xs ! j) = Some j"
      using Cons.IH [of j] by auto
    with Suc show ?thesis by auto
  qed
qed

lemma sextet_hi: "x div 4 * 64 + x mod 4 * 16 = 16 * (x::nat)"
  by presburger

lemma sextet_mid: "y div 16 * 64 + y mod 16 * 4 = 4 * (y::nat)"
  by presburger

lemma sextet_lo: "z div 64 * 64 + z mod 64 = (z::nat)"
  by simp

lemma pack2: "((x div 4 * 64 + (x mod 4 * 16 + y div 16)) * 64 + y mod 16 * 4) div 4 = x * 256 + (y::nat)"
proof -
  have "(x div 4 * 64 + (x mod 4 * 16 + y div 16)) * 64 + y mod 16 * 4
        = (x div 4 * 64 + x mod 4 * 16) * 64 + (y div 16 * 64 + y mod 16 * 4)"
    by (simp add: algebra_simps)
  also have "\<dots> = 4 * (x * 256 + y)"
    by (simp only: sextet_hi sextet_mid) simp
  finally show ?thesis by simp
qed

lemma pack1: "(x div 4 * 64 + x mod 4 * 16) div 16 = (x::nat)"
  unfolding sextet_hi by simp

lemma pack3:
  "((x div 4 * 64 + (x mod 4 * 16 + y div 16)) * 64 + (y mod 16 * 4 + z div 64)) * 64 + z mod 64
     = (x * 256 + y) * 256 + (z::nat)"
proof -
  have "((x div 4 * 64 + (x mod 4 * 16 + y div 16)) * 64 + (y mod 16 * 4 + z div 64)) * 64 + z mod 64
        = ((x div 4 * 64 + x mod 4 * 16) * 64 + (y div 16 * 64 + y mod 16 * 4)) * 64
            + (z div 64 * 64 + z mod 64)"
    by (simp add: algebra_simps)
  also have "\<dots> = (x * 256 + y) * 256 + z"
    by (simp only: sextet_hi sextet_mid sextet_lo) simp
  finally show ?thesis .
qed

lemma div_256: "z < 256 \<Longrightarrow> (m * 256 + z) div 256 = (m::nat)"
  by simp

lemma mod_256: "z < 256 \<Longrightarrow> (m * 256 + z) mod 256 = (z::nat)"
  by simp

lemma div_65536: "(n::nat) div 65536 = n div 256 div 256"
  by (simp add: div_mult2_eq [symmetric])

lemma octets_sextets:
  "\<forall>x\<in>set xs. x < 256 \<Longrightarrow> octets (sextets xs) = xs"
proof (induction xs rule: sextets.induct)
  case 1
  then show ?case by simp
next
  case (2 x)
  show ?case by (simp only: sextets.simps octets.simps pack1)
next
  case (3 x y)
  then have "y < 256" by simp
  then have "(x * 256 + y) div 256 = x" "(x * 256 + y) mod 256 = y" by simp_all
  then show ?case by (simp only: sextets.simps octets.simps pack2 Let_def)
next
  case (4 x y z rest)
  then have b: "y < 256" "z < 256" and r: "octets (sextets rest) = rest" by simp_all
  have d: "((x * 256 + y) * 256 + z) div 65536 = x" "((x * 256 + y) * 256 + z) div 256 mod 256 = y"
    "((x * 256 + y) * 256 + z) mod 256 = z"
    using b by (simp_all only: div_65536 div_256 mod_256)
  show ?case by (simp only: sextets.simps octets.simps append.simps pack3 Let_def d r)
qed


lemma length_b64_alphabet: "length b64_alphabet = 64"
  by (simp add: b64_alphabet_def)

lemma distinct_b64_alphabet: "distinct b64_alphabet"
  by (simp add: b64_alphabet_def)

lemma b64_value_char: "i < 64 \<Longrightarrow> b64_value (b64_char i) = Some i"
  by (simp add: b64_value_def b64_char_def position_nth distinct_b64_alphabet length_b64_alphabet)

lemma b64_alphabet_plain:
  "c \<in> set b64_alphabet \<Longrightarrow> c \<noteq> CHR ''='' \<and> \<not> ascii_whitespace c"
  by (auto simp: b64_alphabet_def ascii_whitespace_def)

lemma b64_char_plain:
  "i < 64 \<Longrightarrow> b64_char i \<noteq> CHR ''='' \<and> \<not> ascii_whitespace (b64_char i)"
  by (rule b64_alphabet_plain) (simp add: b64_char_def length_b64_alphabet)

lemma sextets_bound:
  "\<forall>x\<in>set xs. x < 256 \<Longrightarrow> \<forall>v\<in>set (sextets xs). v < 64"
  by (induction xs rule: sextets.induct) auto

lemma length_sextets:
  "length (sextets xs) =
     4 * (length xs div 3) + (if length xs mod 3 = 0 then 0 else length xs mod 3 + 1)"
  by (induction xs rule: sextets.induct) auto

lemma those_b64_value:
  "\<forall>v\<in>set vs. v < 64 \<Longrightarrow> those (map b64_value (map b64_char vs)) = Some vs"
  by (induction vs) (simp_all add: b64_value_char)

lemma filter_encoded:
  assumes "\<forall>v\<in>set vs. v < 64"
  shows "filter (\<lambda>c. \<not> ascii_whitespace c) (map b64_char vs @ padding n)
           = map b64_char vs @ padding n"
proof -
  have "\<forall>c\<in>set (map b64_char vs). \<not> ascii_whitespace c"
    using assms b64_char_plain by auto
  moreover have "\<forall>c\<in>set (padding n). \<not> ascii_whitespace c"
    by (simp add: padding_def ascii_whitespace_def)
  ultimately show ?thesis
    by (simp add: filter_id_conv)
qed

lemma strip_padding_encoded:
  assumes "\<forall>v\<in>set vs. v < 64"
  shows "strip_padding (map b64_char vs @ padding n) = map b64_char vs"
proof -
  have last: "vs \<noteq> [] \<Longrightarrow> last (map b64_char vs) \<noteq> CHR ''=''"
    using assms b64_char_plain by (simp add: last_map)
  consider "n mod 3 = 0" | "n mod 3 = 1" | "n mod 3 = 2" by linarith
  then show ?thesis
  proof cases
    case 1
    then have "padding n = []" by (simp add: padding_def)
    with last show ?thesis by (auto simp: strip_padding_def)
  next
    case 2
    then have "padding n = [CHR ''='', CHR ''='']" by (simp add: padding_def numeral_2_eq_2)
    then show ?thesis by (simp add: strip_padding_def butlast_append)
  next
    case 3
    then have "padding n = [CHR ''='']" by (simp add: padding_def)
    with last show ?thesis by (auto simp: strip_padding_def butlast_append)
  qed
qed

lemma length_encoded:
  "(length (sextets xs) + length (padding (length xs))) mod 4 = 0"
proof -
  consider "length xs mod 3 = 0" | "length xs mod 3 = 1" | "length xs mod 3 = 2" by linarith
  then show ?thesis
    by cases (simp_all add: length_sextets padding_def)
qed

lemma length_sextets_mod: "length (sextets xs) mod 4 \<noteq> 1"
proof -
  consider "length xs mod 3 = 0" | "length xs mod 3 = 1" | "length xs mod 3 = 2" by linarith
  then show ?thesis
  proof cases
    case 1
    then have "length (sextets xs) = 4 * (length xs div 3)" by (simp add: length_sextets)
    then show ?thesis by presburger
  next
    case 2
    then have "length (sextets xs) = 4 * (length xs div 3) + 2" by (simp add: length_sextets)
    then show ?thesis by presburger
  next
    case 3
    then have "length (sextets xs) = 4 * (length xs div 3) + 3" by (simp add: length_sextets)
    then show ?thesis by presburger
  qed
qed

lemma atob_btoa: "atob (btoa s) = Inr s"
proof -
  let ?xs = "map of_char s :: nat list"
  let ?vs = "sextets ?xs"
  have xs: "\<forall>x\<in>set ?xs. x < 256" by simp
  then have vs: "\<forall>v\<in>set ?vs. v < 64" by (rule sextets_bound)
  have f: "filter (\<lambda>c. \<not> ascii_whitespace c) (btoa s) = btoa s"
    unfolding btoa_def using vs by (rule filter_encoded)
  have l: "length (btoa s) mod 4 = 0"
    using length_encoded [of ?xs] by (simp add: btoa_def)
  have p: "strip_padding (btoa s) = map b64_char ?vs"
    unfolding btoa_def using vs by (rule strip_padding_encoded)
  have m: "length (map b64_char ?vs) mod 4 \<noteq> 1"
    using length_sextets_mod [of ?xs] by simp
  have t: "those (map (b64_value \<circ> b64_char) ?vs) = Some ?vs"
    using those_b64_value [OF vs] by simp
  have o: "map char_of (octets ?vs) = s"
    using octets_sextets [OF xs] by (simp add: comp_def)
  show ?thesis
    unfolding atob_def Let_def f using l m by (simp add: p t o)
qed

lemma byte_mod_256: "word_of_nat (unat b mod 256) = (b :: byte)"
proof -
  have "unat b < 256" using unsigned_less [of b] by simp
  then have "unat b mod 256 = unat b" by simp
  then show ?thesis by simp
qed

lemma decode_encode: "decodeAudioData (encodeAudioData bytes) = Inr bytes"
  by (simp add: decodeAudioData_def encodeAudioData_def atob_btoa comp_def byte_mod_256)

lemma int16_bytes_int16: "int16_of_bytes (bytes_of_int16 ws) = Inr ws"
proof (induction ws)
  case Nil
  show ?case by simp
next
  case (Cons w ws)
  have "(word_cat (ucast (drop_bit 8 w) :: byte) (ucast w :: byte) :: int16) = w"
    by (rule bit_word_eqI) (auto simp: bit_simps)
  with Cons show ?case by simp
qed

subsection \<open>Samples\<close>

lemma toInteger_near: "\<bar>real_of_int (toInteger r) - r\<bar> < 1"
  unfolding toInteger_def by (simp; linarith)

lemma toInteger_range:
  assumes "- 1 \<le> x" "x < 1"
  shows "- 32768 \<le> toInteger (x * 32768)" "toInteger (x * 32768) < 32768"
proof -
  have lo: "- 32768 \<le> x * 32768" and hi: "x * 32768 < 32768" using assms by simp_all
  show "- 32768 \<le> toInteger (x * 32768)"
    unfolding toInteger_def using lo by (simp; linarith)
  show "toInteger (x * 32768) < 32768"
    unfolding toInteger_def using hi by (simp; linarith)
qed

lemma sint_int16: "- 32768 \<le> n \<Longrightarrow> n < 32768 \<Longrightarrow> sint (word_of_int n :: int16) = n"
  by (simp add: sint_sbintrunc' signed_take_bit_int_eq_self)

lemma sint_floatToPcm16:
  "- 1 \<le> x \<Longrightarrow> x < 1 \<Longrightarrow> sint (floatToPcm16 x) = toInteger (x * 32768)"
  unfolding floatToPcm16_def by (rule sint_int16) (rule toInteger_range; assumption)+

lemma sample_round_trip:
  assumes "- 1 \<le> x" "x < 1"
  shows "\<bar>pcm16ToFloat (floatToPcm16 x) - x\<bar> < 1 / 32768"
proof -
  have "\<bar>real_of_int (toInteger (x * 32768)) - x * 32768\<bar> < 1"
    by (rule toInteger_near)
  then have "\<bar>real_of_int (toInteger (x * 32768)) / 32768 - x\<bar> < 1 / 32768"
    by (simp add: field_simps abs_less_iff)
  then show ?thesis
    by (simp add: pcm16ToFloat_def sint_floatToPcm16 assms)
qed

lemma full_scale_wraps: "pcm16ToFloat (floatToPcm16 1) = - 1"
  by (simp add: pcm16ToFloat_def floatToPcm16_def toInteger_def)

lemma map_nth_upt: "map (\<lambda>i. f (xs ! i)) [0 ..< length xs] = map f xs"
  by (rule nth_equalityI) simp_all

lemma convert_mono:
  "convertPCMToAudioBuffer (bytes_of_int16 ws) rate 1 =
     (if ws = [] \<or> rate = 0 then Inl NotSupportedError
      else Inr \<lparr> numberOfChannels = 1, frames = length ws, sampleRate = rate,
                 channelData = [map pcm16ToFloat ws] \<rparr>)"
  by (simp add: convertPCMToAudioBuffer_def int16_bytes_int16 createBuffer_def map_nth_upt)

lemma decode_createBlob:
  "decodeInbound (blob_data (createBlob data)) =
     (if data = [] then Inl NotSupportedError
      else Inr \<lparr> numberOfChannels = 1, frames = length data, sampleRate = 24000,
                 channelData = [map (\<lambda>x. pcm16ToFloat (floatToPcm16 x)) data] \<rparr>)"
  using convert_mono [of "map floatToPcm16 data" 24000]
  by (simp add: decodeInbound_def createBlob_def decode_encode comp_def)

section \<open>Facts about the session\<close>

subsection \<open>The message handler\<close>

lemma trim_Nil: "trim [] = []"
  by (simp add: trim_def)

lemma render_fields:
  "audioContextRef (render s now k rs) = audioContextRef s"
  "nextStartTimeRef (render s now k rs) = nextStartTimeRef s"
  "sourcesRef (render s now k rs) = sourcesRef s"
  "started (render s now k rs) = started s"
  "stopped (render s now k rs) = stopped s"
  "status (render s now k rs) = status s"
  "isConnected (render s now k rs) = isConnected s"
  "realtimeText (render s now k rs) = realtimeText s"
  "currentInputBuffer (render s now k rs) = currentInputBuffer s"
  "currentOutputBuffer (render s now k rs) = currentOutputBuffer s"
  by (induction rs arbitrary: s k; simp add: run_updater_def)+

lemma transcript_branches_signal:
  "inputTranscription m = None \<Longrightarrow> outputTranscription m = None \<Longrightarrow> \<not> turnComplete m
     \<Longrightarrow> transcript_branches s now m = s"
  by (simp add: transcript_branches_def onInputTranscription_def onOutputTranscription_def
      onTurnComplete_def)

lemma transcript_branches_audio_fields:
  "audioContextRef (transcript_branches s now m) = audioContextRef s"
  "nextStartTimeRef (transcript_branches s now m) = nextStartTimeRef s"
  "sourcesRef (transcript_branches s now m) = sourcesRef s"
  "started (transcript_branches s now m) = started s"
  "stopped (transcript_branches s now m) = stopped s"
  "status (transcript_branches s now m) = status s"
  "isConnected (transcript_branches s now m) = isConnected s"
  by (simp_all add: transcript_branches_def onInputTranscription_def onOutputTranscription_def
      onTurnComplete_def render_fields Let_def split: option.splits)

lemma onmessage_interrupted_signal:
  "onmessage s now t interrupted_signal =
     (s \<lparr> stopped := stopped s @ sourcesRef s, sourcesRef := [], nextStartTimeRef := 0,
          currentOutputBuffer := [], realtimeText := None \<rparr>, None)"
  by (simp add: onmessage_def interrupted_signal_def transcript_branches_signal
      onAudio_def onInterrupted_def)

lemma onmessage_turn_complete_signal:
  "onmessage s now t turn_complete_signal =
     (s \<lparr> transcript := transcript s
              @ (if trim (currentInputBuffer s) \<noteq> [] then [user_entry (now 0) (now 1) []] else [])
              @ (if trim (currentOutputBuffer s) \<noteq> [] then
                   [if trim (currentInputBuffer s) \<noteq> [] then model_entry (now 2) (now 3) []
                    else model_entry (now 0) (now 1) []]
                 else []),
          currentInputBuffer :=
            (if trim (currentInputBuffer s) \<noteq> [] then [] else currentInputBuffer s),
          currentOutputBuffer :=
            (if trim (currentOutputBuffer s) \<noteq> [] then [] else currentOutputBuffer s),
          realtimeText := None \<rparr>, None)"
  by (simp add: onmessage_def turn_complete_signal_def transcript_branches_def
      onInputTranscription_def onOutputTranscription_def onTurnComplete_def onAudio_def
      onInterrupted_def run_updater_def Let_def numeral_2_eq_2 numeral_3_eq_3)

lemma turn_complete_twice:
  "transcript (fst (onmessage (fst (onmessage s now t turn_complete_signal)) now' t'
       turn_complete_signal))
     = transcript (fst (onmessage s now t turn_complete_signal))"
  by (simp add: onmessage_turn_complete_signal trim_Nil)

lemma onmessage_frame:
  assumes "audioContextRef s \<noteq> None" "audio m = Some p" "p \<noteq> []" "decodeInbound p = Inr b"
    and "\<not> interrupted m"
  shows "onmessage s now t m =
           ((transcript_branches s now m)
              \<lparr> nextStartTimeRef := max (nextStartTimeRef s) t + duration b,
                started := started s @
                  [\<lparr> node_id = length (started s), node_buffer = b,
                     node_when = max (nextStartTimeRef s) t \<rparr>],
                sourcesRef := sourcesRef s @
                  [\<lparr> node_id = length (started s), node_buffer = b,
                     node_when = max (nextStartTimeRef s) t \<rparr>] \<rparr>, None)"
  using assms
  by (simp add: onmessage_def onAudio_def onInterrupted_def transcript_branches_audio_fields Let_def)

lemma onmessage_frame_raises:
  assumes "audioContextRef s \<noteq> None" "audio m = Some p" "p \<noteq> []" "decodeInbound p = Inl e"
  shows "onmessage s now t m =
           ((transcript_branches s now m)
              \<lparr> nextStartTimeRef := max (nextStartTimeRef s) t \<rparr>, Some e)"
  using assms
  by (simp add: onmessage_def onAudio_def transcript_branches_audio_fields Let_def)




subsection \<open>The example sessions\<close>

lemma decode_one_sample:
  "decodeInbound ''AAA='' =
     Inr \<lparr> numberOfChannels = 1, frames = 1, sampleRate = 24000, channelData = [[0]] \<rparr>"
  by (simp add: decodeInbound_def decodeAudioData_def atob_def ascii_whitespace_def
      strip_padding_def b64_value_def b64_alphabet_def Let_def convertPCMToAudioBuffer_def
      createBuffer_def pcm16ToFloat_def)

lemma decode_one_byte: "decodeInbound ''AA=='' = Inl RangeError"
  by (simp add: decodeInbound_def decodeAudioData_def atob_def ascii_whitespace_def
      strip_padding_def b64_value_def b64_alphabet_def Let_def convertPCMToAudioBuffer_def)

lemma open_session_eq:
  "open_session =
     LiveVoice_init \<lparr> isConnected := True, status := Connected,
       audioContextRef := Some (AudioContext 24000),
       inputContextRef := Some (AudioContext 16000),
       sessionRef := Some 0, streamRef := Some Live, processorRef := Some Wired,
       micRequests := 1, remoteSessions := 1 \<rparr>"
  by (simp add: open_session_def onopen_def connect_def initAudio_def mic_allowed_def
      LiveVoice_init_def Let_def)

lemma toString_1002: "toString 1002 = ''1002''"
  by code_simp

lemma trim_hello: "trim ''hello'' = ''hello''" "trim ''hi there'' = ''hi there''"
  by (simp_all add: trim_def js_whitespace_def)

lemma live_session_eq:
  "live_session =
     LiveVoice_init \<lparr> isConnected := True, status := Connected,
       transcript :=
         [\<lparr> msg_id = ''1002-user'', msg_role = User, msg_text = [], msg_timestamp = 1002 \<rparr>,
          \<lparr> msg_id = ''1002-model'', msg_role = Model, msg_text = [], msg_timestamp = 1002 \<rparr>],
       audioContextRef := Some (AudioContext 24000),
       inputContextRef := Some (AudioContext 16000),
       sessionRef := Some 0,
       nextStartTimeRef := 5 + 1 / 24000,
       sourcesRef := [\<lparr> node_id = 0,
          node_buffer = \<lparr> numberOfChannels = 1, frames = 1, sampleRate = 24000,
                          channelData = [[0]] \<rparr>, node_when = 5 \<rparr>],
       streamRef := Some Live, processorRef := Some Wired,
       started := [\<lparr> node_id = 0,
          node_buffer = \<lparr> numberOfChannels = 1, frames = 1, sampleRate = 24000,
                          channelData = [[0]] \<rparr>, node_when = 5 \<rparr>],
       micRequests := 1, remoteSessions := 1 \<rparr>"
  by (simp add: live_session_def open_session_eq LiveVoice_init_def onmessage_def
      transcript_branches_def onInputTranscription_def onOutputTranscription_def
      onTurnComplete_def onAudio_def onInterrupted_def input_delta_def output_delta_def
      turn_complete_signal_def audio_payload_def decode_one_sample user_entry_def
      model_entry_def run_updater_def steady_def toString_1002 trim_hello trim_Nil
      duration_def Let_def)




lemma turn_of_two_sides:
  "transcript (deliver open_session
     [(steady 1000, 0, input_delta ''hello''),
      (steady 1001, 0, output_delta ''hi there''),
      (steady 1002, 0, turn_complete_signal)]) =
     [\<lparr> msg_id = ''1002-user'', msg_role = User, msg_text = [], msg_timestamp = 1002 \<rparr>,
      \<lparr> msg_id = ''1002-model'', msg_role = Model, msg_text = [], msg_timestamp = 1002 \<rparr>]"
  by (simp add: open_session_eq LiveVoice_init_def onmessage_def
      transcript_branches_def onInputTranscription_def onOutputTranscription_def
      onTurnComplete_def onAudio_def onInterrupted_def input_delta_def output_delta_def
      turn_complete_signal_def user_entry_def model_entry_def run_updater_def steady_def
      toString_1002 trim_hello trim_Nil Let_def)

lemma turn_of_the_agent:
  "transcript (deliver open_session
     [(steady 1000, 0, output_delta ''He''),
      (steady 1001, 0, output_delta ''llo''),
      (steady 1002, 0, turn_complete_signal)]) =
     [\<lparr> msg_id = ''1002-model'', msg_role = Model, msg_text = [], msg_timestamp = 1002 \<rparr>]"
  by (simp add: open_session_eq LiveVoice_init_def onmessage_def
      transcript_branches_def onInputTranscription_def onOutputTranscription_def
      onTurnComplete_def onAudio_def onInterrupted_def output_delta_def
      turn_complete_signal_def model_entry_def run_updater_def steady_def
      toString_1002 trim_def js_whitespace_def Let_def)

lemma buffers_before_the_turn:
  "currentInputBuffer (deliver open_session
     [(steady 1000, 0, input_delta ''hello''), (steady 1001, 0, output_delta ''hi there'')])
     = ''hello''"
  "currentOutputBuffer (deliver open_session
     [(steady 1000, 0, input_delta ''hello''), (steady 1001, 0, output_delta ''hi there'')])
     = ''hi there''"
  "currentOutputBuffer (deliver open_session
     [(steady 1000, 0, output_delta ''He''), (steady 1001, 0, output_delta ''llo'')])
     = ''Hello''"
  by (simp_all add: open_session_eq LiveVoice_init_def onmessage_def
      transcript_branches_def onInputTranscription_def onOutputTranscription_def
      onTurnComplete_def onAudio_def onInterrupted_def input_delta_def output_delta_def)

subsection \<open>Failure of the decoding\<close>

lemma int16_of_bytes_parity:
  "(int16_of_bytes bs = Inl RangeError) = odd (length bs)"
  "(\<exists>ws. int16_of_bytes bs = Inr ws \<and> length ws = length bs div 2) = even (length bs)"
  by (induction bs rule: int16_of_bytes.induct) (auto split: sum.splits)

lemma convert_RangeError:
  "(convertPCMToAudioBuffer bytes rate numChannels = Inl RangeError) = odd (length bytes)"
proof (cases "even (length bytes)")
  case True
  then obtain ws where "int16_of_bytes bytes = Inr ws"
    using int16_of_bytes_parity(2) [of bytes] by blast
  with True show ?thesis
    by (simp add: convertPCMToAudioBuffer_def createBuffer_def split: sum.splits)
next
  case False
  then have "int16_of_bytes bytes = Inl RangeError"
    using int16_of_bytes_parity(1) [of bytes] by blast
  with False show ?thesis by (simp add: convertPCMToAudioBuffer_def)
qed

subsection \<open>Connecting, closing and the button\<close>

lemma decode_one_byte_bytes: "decodeAudioData ''AA=='' = Inr [0]"
  by (simp add: decodeAudioData_def atob_def ascii_whitespace_def
      strip_padding_def b64_value_def b64_alphabet_def Let_def)

lemma decodeInbound_RangeError:
  "decodeAudioData p = Inr bytes \<Longrightarrow> odd (length bytes) \<Longrightarrow> decodeInbound p = Inl RangeError"
  by (simp add: decodeInbound_def convert_RangeError)

lemma initAudio_fields:
  "realtimeText (fst (initAudio s env)) = realtimeText s"
  "nextStartTimeRef (fst (initAudio s env)) = nextStartTimeRef s"
  "transcript (fst (initAudio s env)) = transcript s"
  "currentInputBuffer (fst (initAudio s env)) = currentInputBuffer s"
  "currentOutputBuffer (fst (initAudio s env)) = currentOutputBuffer s"
  "started (fst (initAudio s env)) = started s"
  "sourcesRef (fst (initAudio s env)) = sourcesRef s"
  "status (fst (initAudio s env)) = status s"
  "isConnected (fst (initAudio s env)) = isConnected s"
  "remoteSessions (fst (initAudio s env)) = remoteSessions s"
  "sessionRef (fst (initAudio s env)) = sessionRef s"
  by (simp_all add: initAudio_def Let_def)

lemma initAudio_keeps_cells:
  "audioContextRef s \<noteq> None \<Longrightarrow> audioContextRef (fst (initAudio s env)) = audioContextRef s"
  "outputContext_throws env = None \<Longrightarrow> audioContextRef (fst (initAudio s env)) \<noteq> None"
  "outputContext_throws env = None \<Longrightarrow> inputContext_throws env = None
     \<Longrightarrow> snd (initAudio s env) = resume_throws env"
  by (auto simp: initAudio_def Let_def)

lemma connect_catch_fields:
  "realtimeText (connect_catch s exc) = realtimeText s"
  "nextStartTimeRef (connect_catch s exc) = nextStartTimeRef s"
  "transcript (connect_catch s exc) = transcript s"
  "currentInputBuffer (connect_catch s exc) = currentInputBuffer s"
  "currentOutputBuffer (connect_catch s exc) = currentOutputBuffer s"
  "started (connect_catch s exc) = started s"
  "sourcesRef (connect_catch s exc) = sourcesRef s"
  "status (connect_catch s exc) = Error"
  "isConnected (connect_catch s exc) = False"
  "remoteSessions (connect_catch s exc) = remoteSessions s"
  "sessionRef (connect_catch s exc) = sessionRef s"
  by (simp_all add: connect_catch_def Let_def)

lemma connect_fields:
  "realtimeText (connect s env) = realtimeText s"
  "nextStartTimeRef (connect s env) = nextStartTimeRef s"
  "transcript (connect s env) = []"
  "currentInputBuffer (connect s env) = []"
  "currentOutputBuffer (connect s env) = []"
  "started (connect s env) = started s"
  "sourcesRef (connect s env) = sourcesRef s"
proof -
  let ?s1 = "s \<lparr> errorMessage := [], status := Connecting, permissionDenied := False,
                   transcript := [], currentInputBuffer := [], currentOutputBuffer := [] \<rparr>"
  obtain s2 e where i: "initAudio ?s1 env = (s2, e)"
    by (cases "initAudio ?s1 env") auto
  have s2: "s2 = fst (initAudio ?s1 env)" by (simp add: i)
  show "realtimeText (connect s env) = realtimeText s"
    "nextStartTimeRef (connect s env) = nextStartTimeRef s"
    "transcript (connect s env) = []"
    "currentInputBuffer (connect s env) = []"
    "currentOutputBuffer (connect s env) = []"
    "started (connect s env) = started s"
    "sourcesRef (connect s env) = sourcesRef s"
    unfolding connect_def Let_def i
    by (cases e; simp add: connect_catch_fields s2 initAudio_fields)+
qed

lemma connect_status:
  "status (connect s env) = Connecting \<or> status (connect s env) = Error"
  "isConnected (connect s env) = (isConnected s \<and> status (connect s env) = Connecting)"
proof -
  let ?s1 = "s \<lparr> errorMessage := [], status := Connecting, permissionDenied := False,
                   transcript := [], currentInputBuffer := [], currentOutputBuffer := [] \<rparr>"
  obtain s2 e where i: "initAudio ?s1 env = (s2, e)"
    by (cases "initAudio ?s1 env") auto
  have s2: "s2 = fst (initAudio ?s1 env)" by (simp add: i)
  show "status (connect s env) = Connecting \<or> status (connect s env) = Error"
    "isConnected (connect s env) = (isConnected s \<and> status (connect s env) = Connecting)"
    unfolding connect_def Let_def i
    by (cases e; simp add: connect_catch_fields s2 initAudio_fields)+
qed

lemma connect_refused:
  "\<not> mic_granted env \<Longrightarrow> status (connect s env) = Error"
  "\<not> mic_granted env \<Longrightarrow> remoteSessions (connect s env) = remoteSessions s"
  "\<not> mic_granted env \<Longrightarrow> sessionRef (connect s env) = sessionRef s"
proof -
  let ?s1 = "s \<lparr> errorMessage := [], status := Connecting, permissionDenied := False,
                   transcript := [], currentInputBuffer := [], currentOutputBuffer := [] \<rparr>"
  obtain s2 e where i: "initAudio ?s1 env = (s2, e)"
    by (cases "initAudio ?s1 env") auto
  have s2: "s2 = fst (initAudio ?s1 env)" by (simp add: i)
  show "\<not> mic_granted env \<Longrightarrow> status (connect s env) = Error"
    "\<not> mic_granted env \<Longrightarrow> remoteSessions (connect s env) = remoteSessions s"
    "\<not> mic_granted env \<Longrightarrow> sessionRef (connect s env) = sessionRef s"
    unfolding connect_def Let_def i
    by (cases e; simp add: connect_catch_fields s2 initAudio_fields)+
qed

lemma connect_refused_permission:
  "permissionDenied (connect LiveVoice_init mic_refused)"
  by (simp add: connect_def initAudio_def connect_catch_def mic_refused_def LiveVoice_init_def
      Let_def)

lemma disconnect_fields:
  "nextStartTimeRef (disconnect s) = nextStartTimeRef s"
  "transcript (disconnect s) = transcript s"
  "remoteSessions (disconnect s) = remoteSessions s"
  "micRequests (disconnect s) = micRequests s"
  "sourcesRef (disconnect s) = []"
  "stopped (disconnect s) = stopped s @ sourcesRef s"
  "audioContextRef (disconnect s) = None"
  "inputContextRef (disconnect s) = None"
  by (simp_all add: disconnect_def Let_def)

lemma connected_flag: "reachable s \<Longrightarrow> isConnected s = (status s = Connected)"
proof (induction rule: reachable.induct)
  case initial
  show ?case by (simp add: LiveVoice_init_def)
next
  case (click s env)
  then show ?case
    using connect_status [of s env]
    by (auto simp: onClick_def button_disabled_def disconnect_def Let_def)
next
  case (opened s)
  show ?case by (simp add: onopen_def Let_def)
next
  case (message s now currentTime m)
  then show ?case
    by (simp add: onmessage_def onAudio_def onInterrupted_def transcript_branches_audio_fields
        Let_def split: option.splits sum.splits prod.splits)
next
  case (ended s source)
  then show ?case by (simp add: onended_def)
next
  case (closed s)
  show ?case by (simp add: onclose_def)
next
  case (failed s)
  show ?case by (simp add: onerror_def)
next
  case (unmounted s)
  show ?case by (simp add: disconnect_def Let_def)
qed

lemma reachable_open_session: "reachable open_session"
proof -
  have "\<not> button_disabled LiveVoice_init" "\<not> isConnected LiveVoice_init"
    by (simp_all add: button_disabled_def LiveVoice_init_def)
  then have "onClick LiveVoice_init mic_allowed = connect LiveVoice_init mic_allowed"
    by (simp add: onClick_def)
  with reachable.click [OF reachable.initial, of mic_allowed]
  have "reachable (connect LiveVoice_init mic_allowed)" by simp
  then show ?thesis unfolding open_session_def by (rule reachable.opened)
qed

lemma onmessage_audio_payload_raises:
  assumes "audioContextRef s \<noteq> None" "p \<noteq> []" "decodeInbound p = Inl e"
  shows "onmessage s now t (audio_payload p) = (s \<lparr> nextStartTimeRef := max (nextStartTimeRef s) t \<rparr>, Some e)"
  using assms
  by (simp add: onmessage_def onAudio_def audio_payload_def transcript_branches_signal)

lemma onmessage_audio_payload_skips:
  assumes "audioContextRef s \<noteq> None" "p \<noteq> []" "decodeInbound p = Inl e" "p' \<noteq> []" "t \<le> t'"
  shows "onmessage (fst (onmessage s now t (audio_payload p))) now' t' (audio_payload p')
           = onmessage s now' t' (audio_payload p')"
proof -
  have m: "max (max (nextStartTimeRef s) t) t' = max (nextStartTimeRef s) t'"
    using assms(5) by simp
  show ?thesis
    unfolding onmessage_audio_payload_raises [OF assms(1,2,3)]
    using assms(1,4)
    by (simp add: onmessage_def onAudio_def audio_payload_def transcript_branches_signal m Let_def
        split: sum.splits)
qed

lemma bad_frame:
  "onmessage live_session (steady 2000) 6 (audio_payload ''AA=='') =
     (live_session \<lparr> nextStartTimeRef := 6 \<rparr>, Some RangeError)"
proof -
  have "audioContextRef live_session \<noteq> None" "max (nextStartTimeRef live_session) 6 = 6"
    by (simp_all add: live_session_eq LiveVoice_init_def)
  with onmessage_audio_payload_raises [of live_session "''AA==''" RangeError "steady 2000" 6]
  show ?thesis by (simp add: decode_one_byte)
qed

lemma onclose_fields:
  "status (onclose s) = Disconnected" "isConnected (onclose s) = False"
  "sourcesRef (onclose s) = sourcesRef s" "stopped (onclose s) = stopped s"
  "streamRef (onclose s) = streamRef s" "processorRef (onclose s) = processorRef s"
  "audioContextRef (onclose s) = audioContextRef s"
  "inputContextRef (onclose s) = inputContextRef s"
  "realtimeText (onclose s) = realtimeText s"
  "permissionDenied (onclose s) = permissionDenied s"
  by (simp_all add: onclose_def)

lemma onerror_fields:
  "status (onerror s) = Error" "isConnected (onerror s) = False"
  "sourcesRef (onerror s) = sourcesRef s" "stopped (onerror s) = stopped s"
  "streamRef (onerror s) = streamRef s" "processorRef (onerror s) = processorRef s"
  "audioContextRef (onerror s) = audioContextRef s"
  "inputContextRef (onerror s) = inputContextRef s"
  "realtimeText (onerror s) = realtimeText s"
  "permissionDenied (onerror s) = permissionDenied s"
  by (simp_all add: onerror_def)

lemma onClick_realtimeText:
  "realtimeText (onClick (onclose s) env) = realtimeText s"
  "realtimeText (onClick (onerror s) env) = realtimeText s"
  by (simp_all add: onClick_def connect_fields onclose_fields onerror_fields)

lemma onmessage_quiet:
  assumes "inputTranscription m = None \<or> inputTranscription m = Some []"
    and "outputTranscription m = None \<or> outputTranscription m = Some []"
    and "\<not> turnComplete m" and "\<not> interrupted m"
  shows "realtimeText (fst (onmessage s now t m)) = realtimeText s"
  using assms
  by (auto simp: onmessage_def transcript_branches_def onInputTranscription_def
      onOutputTranscription_def onTurnComplete_def onAudio_def onInterrupted_def Let_def
      split: option.splits sum.splits)

section \<open>The claims\<close>







text \<open>
  C3. On a turn-complete message each side whose trimmed buffer is not empty queues one
  entry and empties its buffer, the user side first, and a second turn-complete right
  after queues nothing. The text of the entry is not the trimmed buffer: the updater reads
  the cell when it runs, after the cell was emptied. With the user's \<open>hello\<close> and the
  agent's \<open>hi there\<close> in the buffers the turn commits two entries with empty text, and
  with the agent's \<open>Hello\<close> alone one entry with empty text.
\<close>

theorem commitTurn_reads_emptied_cell:
  "currentInputBuffer (deliver open_session
     [(steady 1000, 0, input_delta ''hello''), (steady 1001, 0, output_delta ''hi there'')])
     = ''hello''
   \<and> currentOutputBuffer (deliver open_session
     [(steady 1000, 0, input_delta ''hello''), (steady 1001, 0, output_delta ''hi there'')])
     = ''hi there''
   \<and> trim ''hello'' = ''hello''
   \<and> trim ''hi there'' = ''hi there''
   \<and> transcript (deliver open_session
     [(steady 1000, 0, input_delta ''hello''),
      (steady 1001, 0, output_delta ''hi there''),
      (steady 1002, 0, turn_complete_signal)]) =
     [\<lparr> msg_id = ''1002-user'', msg_role = User, msg_text = [], msg_timestamp = 1002 \<rparr>,
      \<lparr> msg_id = ''1002-model'', msg_role = Model, msg_text = [], msg_timestamp = 1002 \<rparr>]
   \<and> currentOutputBuffer (deliver open_session
     [(steady 1000, 0, output_delta ''He''), (steady 1001, 0, output_delta ''llo'')])
     = ''Hello''
   \<and> transcript (deliver open_session
     [(steady 1000, 0, output_delta ''He''),
      (steady 1001, 0, output_delta ''llo''),
      (steady 1002, 0, turn_complete_signal)]) =
     [\<lparr> msg_id = ''1002-model'', msg_role = Model, msg_text = [], msg_timestamp = 1002 \<rparr>]"
  by (simp only: turn_of_two_sides turn_of_the_agent buffers_before_the_turn trim_hello simp_thms)

text \<open>
  C4 (amended). The decoding of an inbound payload (one channel) fails with the
  \<^verbatim>\<open>RangeError\<close> of the 16-bit view exactly when the byte length is not a multiple of
  \<open>2 * 1\<close>. The handler does not catch it: the exception leaves the handler after
  \<open>nextStartTimeRef\<close> was raised to the device clock, and the rest of that message is not
  handled. No source is started; status, connection flag and active set are as before;
  a later message with a decodable payload is scheduled as usual, and when messages carry
  audio only and the clock does not run backwards the later call ends exactly as if the
  malformed frame had never arrived.
\<close>

theorem malformed_audio_raises:
  assumes "audioContextRef s \<noteq> None" and "audio m = Some p" and "p \<noteq> []"
    and "decodeAudioData p = Inr bytes"
  shows "(convertPCMToAudioBuffer bytes 24000 1 = Inl RangeError) = (\<not> 2 * 1 dvd length bytes)
    \<and> (\<not> 2 * 1 dvd length bytes \<longrightarrow>
          onmessage s now t m =
            ((transcript_branches s now m) \<lparr> nextStartTimeRef := max (nextStartTimeRef s) t \<rparr>,
             Some RangeError)
        \<and> status (fst (onmessage s now t m)) = status s
        \<and> isConnected (fst (onmessage s now t m)) = isConnected s
        \<and> sourcesRef (fst (onmessage s now t m)) = sourcesRef s
        \<and> started (fst (onmessage s now t m)) = started s
        \<and> stopped (fst (onmessage s now t m)) = stopped s
        \<and> (\<forall>now' t' m' p' b'.
              audio m' = Some p' \<and> p' \<noteq> [] \<and> decodeInbound p' = Inr b' \<and> \<not> interrupted m' \<longrightarrow>
                snd (onmessage (fst (onmessage s now t m)) now' t' m') = None
              \<and> started (fst (onmessage (fst (onmessage s now t m)) now' t' m')) =
                  started s @ [\<lparr> node_id = length (started s), node_buffer = b',
                                 node_when = max (max (nextStartTimeRef s) t) t' \<rparr>]
              \<and> sourcesRef (fst (onmessage (fst (onmessage s now t m)) now' t' m')) =
                  sourcesRef s @ [\<lparr> node_id = length (started s), node_buffer = b',
                                    node_when = max (max (nextStartTimeRef s) t) t' \<rparr>])
        \<and> (\<forall>now' t' p'. m = audio_payload p \<and> p' \<noteq> [] \<and> t \<le> t' \<longrightarrow>
              onmessage (fst (onmessage s now t m)) now' t' (audio_payload p')
                = onmessage s now' t' (audio_payload p')))"
proof (intro conjI impI)
  show "(convertPCMToAudioBuffer bytes 24000 1 = Inl RangeError) = (\<not> 2 * 1 dvd length bytes)"
    by (simp add: convert_RangeError)
next
  assume "\<not> 2 * 1 dvd length bytes"
  then have odd: "odd (length bytes)" by simp
  have bad: "decodeInbound p = Inl RangeError"
    using assms(4) odd by (rule decodeInbound_RangeError)
  let ?s' = "(transcript_branches s now m) \<lparr> nextStartTimeRef := max (nextStartTimeRef s) t \<rparr>"
  show r: "onmessage s now t m = (?s', Some RangeError)"
    using assms(1,2,3) bad by (rule onmessage_frame_raises)
  show "status (fst (onmessage s now t m)) = status s"
    "isConnected (fst (onmessage s now t m)) = isConnected s"
    "sourcesRef (fst (onmessage s now t m)) = sourcesRef s"
    "started (fst (onmessage s now t m)) = started s"
    "stopped (fst (onmessage s now t m)) = stopped s"
    by (simp_all add: r transcript_branches_audio_fields)
  have ctx: "audioContextRef ?s' \<noteq> None"
    using assms(1) by (simp add: transcript_branches_audio_fields)
  show "\<forall>now' t' m' p' b'.
              audio m' = Some p' \<and> p' \<noteq> [] \<and> decodeInbound p' = Inr b' \<and> \<not> interrupted m' \<longrightarrow>
                snd (onmessage (fst (onmessage s now t m)) now' t' m') = None
              \<and> started (fst (onmessage (fst (onmessage s now t m)) now' t' m')) =
                  started s @ [\<lparr> node_id = length (started s), node_buffer = b',
                                 node_when = max (max (nextStartTimeRef s) t) t' \<rparr>]
              \<and> sourcesRef (fst (onmessage (fst (onmessage s now t m)) now' t' m')) =
                  sourcesRef s @ [\<lparr> node_id = length (started s), node_buffer = b',
                                    node_when = max (max (nextStartTimeRef s) t) t' \<rparr>]"
  proof (intro allI impI, elim conjE)
    fix now' :: wall_clock and t' :: real and m' :: server_message and p' :: string
      and b' :: audio_buffer
    assume f: "audio m' = Some p'" "p' \<noteq> []" "decodeInbound p' = Inr b'" "\<not> interrupted m'"
    from onmessage_frame [OF ctx f(1,2,3,4), of now' t']
    show "snd (onmessage (fst (onmessage s now t m)) now' t' m') = None
              \<and> started (fst (onmessage (fst (onmessage s now t m)) now' t' m')) =
                  started s @ [\<lparr> node_id = length (started s), node_buffer = b',
                                 node_when = max (max (nextStartTimeRef s) t) t' \<rparr>]
              \<and> sourcesRef (fst (onmessage (fst (onmessage s now t m)) now' t' m')) =
                  sourcesRef s @ [\<lparr> node_id = length (started s), node_buffer = b',
                                    node_when = max (max (nextStartTimeRef s) t) t' \<rparr>]"
      by (simp add: r transcript_branches_audio_fields)
  qed
  show "\<forall>now' t' p'. m = audio_payload p \<and> p' \<noteq> [] \<and> t \<le> t' \<longrightarrow>
              onmessage (fst (onmessage s now t m)) now' t' (audio_payload p')
                = onmessage s now' t' (audio_payload p')"
    using assms(1,3) bad by (auto intro: onmessage_audio_payload_skips)
qed

text \<open>A payload of one byte on the session with one queued frame, then a valid frame.\<close>

theorem malformed_audio_raises_witness:
  "audioContextRef live_session = Some (AudioContext 24000)
   \<and> audio (audio_payload ''AA=='') = Some ''AA==''
   \<and> decodeAudioData ''AA=='' = Inr [0]
   \<and> convertPCMToAudioBuffer [0] 24000 1 = Inl RangeError
   \<and> snd (onmessage live_session (steady 2000) 6 (audio_payload ''AA=='')) = Some RangeError
   \<and> status (fst (onmessage live_session (steady 2000) 6 (audio_payload ''AA==''))) = Connected
   \<and> onmessage (fst (onmessage live_session (steady 2000) 6 (audio_payload ''AA==''))) (steady 2001) 7
         (audio_payload ''AAA='')
       = onmessage live_session (steady 2001) 7 (audio_payload ''AAA='')"
proof -
  have h: "audioContextRef live_session \<noteq> None" "audio (audio_payload ''AA=='') = Some ''AA==''"
    "''AA=='' \<noteq> []"
    by (simp_all add: live_session_eq LiveVoice_init_def audio_payload_def)
  have c: "audioContextRef live_session = Some (AudioContext 24000)"
    "status live_session = Connected"
    by (simp_all add: live_session_eq LiveVoice_init_def)
  note T = malformed_audio_raises [OF h decode_one_byte_bytes, of "steady 2000" 6]
  have odd: "\<not> 2 * 1 dvd length [0 :: byte]" by simp
  from T odd have cv: "convertPCMToAudioBuffer [0] 24000 1 = Inl RangeError"
    by blast
  from T odd have "onmessage live_session (steady 2000) 6 (audio_payload ''AA=='') =
      ((transcript_branches live_session (steady 2000) (audio_payload ''AA==''))
         \<lparr> nextStartTimeRef := max (nextStartTimeRef live_session) 6 \<rparr>, Some RangeError)"
    by blast
  then have ra: "snd (onmessage live_session (steady 2000) 6 (audio_payload ''AA=='')) = Some RangeError"
    by simp
  from T odd have st: "status (fst (onmessage live_session (steady 2000) 6 (audio_payload ''AA==''))) =
      status live_session"
    by blast
  from T odd have "\<forall>now' t' p'. audio_payload ''AA=='' = audio_payload ''AA=='' \<and> p' \<noteq> []
        \<and> 6 \<le> t' \<longrightarrow>
      onmessage (fst (onmessage live_session (steady 2000) 6 (audio_payload ''AA==''))) now' t'
          (audio_payload p')
        = onmessage live_session now' t' (audio_payload p')"
    by blast
  then have sk: "onmessage (fst (onmessage live_session (steady 2000) 6 (audio_payload ''AA==''))) (steady 2001) 7
         (audio_payload ''AAA='')
       = onmessage live_session (steady 2001) 7 (audio_payload ''AAA='')"
    by simp
  from cv ra st sk c h(2) decode_one_byte_bytes show ?thesis by simp
qed

text \<open>
  C4 as stated fails: a message with a payload of one byte and the interrupted signal
  ends in an exception, changes the session, and leaves the queued source in the active
  set, which the same signal without the payload empties.
\<close>

theorem malformed_audio_counterexample:
  "snd (onmessage live_session (steady 2000) 6 (interrupted_signal \<lparr> audio := Some ''AA=='' \<rparr>))
     = Some RangeError
   \<and> fst (onmessage live_session (steady 2000) 6 (interrupted_signal \<lparr> audio := Some ''AA=='' \<rparr>))
     \<noteq> live_session
   \<and> sourcesRef (fst (onmessage live_session (steady 2000) 6
         (interrupted_signal \<lparr> audio := Some ''AA=='' \<rparr>))) \<noteq> []
   \<and> sourcesRef (fst (onmessage live_session (steady 2000) 6 interrupted_signal)) = []"
proof -
  have h: "audioContextRef live_session \<noteq> None" "sourcesRef live_session \<noteq> []"
    "max (nextStartTimeRef live_session) 6 = 6" "nextStartTimeRef live_session \<noteq> 6"
    by (simp_all add: live_session_eq LiveVoice_init_def)
  have t: "transcript_branches live_session (steady 2000) (interrupted_signal \<lparr> audio := Some ''AA=='' \<rparr>)
             = live_session"
    by (simp add: transcript_branches_signal interrupted_signal_def)
  have "onmessage live_session (steady 2000) 6 (interrupted_signal \<lparr> audio := Some ''AA=='' \<rparr>)
          = (live_session \<lparr> nextStartTimeRef := 6 \<rparr>, Some RangeError)"
    using onmessage_frame_raises [OF h(1) _ _ decode_one_byte, of "interrupted_signal \<lparr> audio := Some ''AA=='' \<rparr>" "steady 2000" 6]
    by (simp add: t h(3))
  moreover have "live_session \<lparr> nextStartTimeRef := 6 \<rparr> \<noteq> live_session"
  proof
    assume "live_session \<lparr> nextStartTimeRef := 6 \<rparr> = live_session"
    then have "nextStartTimeRef (live_session \<lparr> nextStartTimeRef := 6 \<rparr>) = nextStartTimeRef live_session"
      by simp
    with h(4) show False by simp
  qed
  ultimately show ?thesis
    using h(2) by (simp add: onmessage_interrupted_signal)
qed

text \<open>
  C5. The close and error callbacks set the status (\<open>Disconnected\<close>, \<open>Error\<close>) and do
  nothing else: on the session with one queued frame the source stays in the active set
  and is not stopped, the microphone stream stays live, the processor stays wired and both
  audio contexts stay open. \<^verbatim>\<open>disconnect\<close> on the same session releases all of them.
\<close>

theorem remote_close_keeps_resources:
  "status (onclose live_session) = Disconnected
   \<and> status (onerror live_session) = Error
   \<and> sourcesRef (onclose live_session) = sourcesRef live_session
   \<and> sourcesRef (onerror live_session) = sourcesRef live_session
   \<and> length (sourcesRef live_session) = 1
   \<and> stopped (onclose live_session) = []
   \<and> stopped (onerror live_session) = []
   \<and> streamRef (onclose live_session) = Some Live
   \<and> streamRef (onerror live_session) = Some Live
   \<and> processorRef (onclose live_session) = Some Wired
   \<and> processorRef (onerror live_session) = Some Wired
   \<and> audioContextRef (onclose live_session) = Some (AudioContext 24000)
   \<and> audioContextRef (onerror live_session) = Some (AudioContext 24000)
   \<and> inputContextRef (onclose live_session) = Some (AudioContext 16000)
   \<and> inputContextRef (onerror live_session) = Some (AudioContext 16000)
   \<and> sourcesRef (disconnect live_session) = []
   \<and> stopped (disconnect live_session) = sourcesRef live_session
   \<and> streamRef (disconnect live_session) = Some Stopped
   \<and> processorRef (disconnect live_session) = Some Unwired
   \<and> audioContextRef (disconnect live_session) = None
   \<and> inputContextRef (disconnect live_session) = None"
  by (simp add: onclose_fields onerror_fields disconnect_def live_session_eq LiveVoice_init_def
      Let_def)

text \<open>
  C6 (amended). The button is the guard of \<^verbatim>\<open>connect\<close>: in a reachable state whose
  status is \<open>Connecting\<close> a click changes nothing, and in one whose status is
  \<open>Connected\<close> a click runs \<^verbatim>\<open>disconnect\<close> (or nothing, when permission was denied);
  in both no remote session is opened, the microphone is not asked for, and the transcript
  is as before.
\<close>

theorem start_button_guard:
  assumes "reachable s" and "status s = Connecting \<or> status s = Connected"
  shows "remoteSessions (onClick s env) = remoteSessions s
         \<and> micRequests (onClick s env) = micRequests s
         \<and> transcript (onClick s env) = transcript s
         \<and> (status s = Connecting \<longrightarrow> onClick s env = s)
         \<and> (status s = Connected \<longrightarrow>
               onClick s env = (if permissionDenied s then s else disconnect s))"
proof (cases "status s = Connecting")
  case True
  then show ?thesis by (simp add: onClick_def button_disabled_def)
next
  case False
  with assms(2) have c: "status s = Connected" by simp
  with connected_flag [OF assms(1)] have "isConnected s" by simp
  with c show ?thesis
    by (simp add: onClick_def button_disabled_def disconnect_fields)
qed

text \<open>A click on the open session, and a click while the first attempt is connecting.\<close>

theorem start_button_guard_witness:
  "status open_session = Connected
   \<and> remoteSessions (onClick open_session mic_allowed) = 1
   \<and> micRequests (onClick open_session mic_allowed) = 1
   \<and> onClick open_session mic_allowed = disconnect open_session
   \<and> status (connect LiveVoice_init mic_allowed) = Connecting
   \<and> onClick (connect LiveVoice_init mic_allowed) mic_allowed = connect LiveVoice_init mic_allowed"
proof -
  have c: "status open_session = Connected" "\<not> permissionDenied open_session"
    "remoteSessions open_session = 1" "micRequests open_session = 1"
    by (simp_all add: open_session_eq LiveVoice_init_def)
  have r: "reachable (connect LiveVoice_init mic_allowed)"
    using reachable.click [OF reachable.initial, of mic_allowed]
    by (simp add: onClick_def button_disabled_def LiveVoice_init_def)
  have g: "status (connect LiveVoice_init mic_allowed) = Connecting"
    by (simp add: connect_def initAudio_def mic_allowed_def Let_def)
  from start_button_guard [OF reachable_open_session disjI2 [OF c(1)], of mic_allowed]
    start_button_guard [OF r disjI1 [OF g], of mic_allowed] c g
  show ?thesis by (simp add: disconnect_fields)
qed

text \<open>
  C6 as stated fails for \<^verbatim>\<open>connect\<close> itself, which has no guard: called on the
  connected session it sets the status to \<open>Connecting\<close>, empties the transcript, asks for
  the microphone and opens a second remote session.
\<close>

theorem connect_unguarded_counterexample:
  "status live_session = Connected
   \<and> connect live_session mic_allowed \<noteq> live_session
   \<and> status (connect live_session mic_allowed) = Connecting
   \<and> transcript live_session \<noteq> []
   \<and> transcript (connect live_session mic_allowed) = []
   \<and> remoteSessions live_session = 1
   \<and> remoteSessions (connect live_session mic_allowed) = 2
   \<and> micRequests live_session = 1
   \<and> micRequests (connect live_session mic_allowed) = 2"
proof -
  have "status live_session = Connected" "transcript live_session \<noteq> []"
    "remoteSessions live_session = 1" "micRequests live_session = 1"
    by (simp_all add: live_session_eq LiveVoice_init_def)
  moreover have "status (connect live_session mic_allowed) = Connecting"
    "transcript (connect live_session mic_allowed) = []"
    "remoteSessions (connect live_session mic_allowed) = 2"
    "micRequests (connect live_session mic_allowed) = 2"
    by (simp_all add: live_session_eq LiveVoice_init_def connect_def initAudio_def
        mic_allowed_def Let_def)
  ultimately show ?thesis by auto
qed

text \<open>
  C7. \<^verbatim>\<open>connect\<close> empties the transcript and both buffers but leaves
  \<open>nextStartTimeRef\<close> as it was, and so does \<^verbatim>\<open>disconnect\<close>: after the session with
  one queued frame is disconnected and connected again, the cell still holds the end of
  the old queue, and the first frame of the new session, handled at clock 0 of the new
  context, is scheduled there. The interrupted branch is the one place that sets the cell
  to 0.
\<close>

theorem reconnect_keeps_stale_timeline:
  "nextStartTimeRef live_session = 5 + 1 / 24000
   \<and> audioContextRef (disconnect live_session) = None
   \<and> transcript (connect (disconnect live_session) mic_allowed) = []
   \<and> currentInputBuffer (connect (disconnect live_session) mic_allowed) = []
   \<and> currentOutputBuffer (connect (disconnect live_session) mic_allowed) = []
   \<and> audioContextRef (connect (disconnect live_session) mic_allowed) = Some (AudioContext 24000)
   \<and> nextStartTimeRef (connect (disconnect live_session) mic_allowed) = 5 + 1 / 24000
   \<and> node_when (last (started (fst (onmessage
         (onopen (connect (disconnect live_session) mic_allowed)) (steady 3000) 0
         (audio_payload ''AAA=''))))) = 5 + 1 / 24000
   \<and> nextStartTimeRef (fst (onmessage live_session (steady 2000) 6 interrupted_signal)) = 0"
proof -
  let ?s = "onopen (connect (disconnect live_session) mic_allowed)"
  have n: "nextStartTimeRef live_session = 5 + 1 / 24000"
    by (simp add: live_session_eq LiveVoice_init_def)
  have a: "audioContextRef (connect (disconnect live_session) mic_allowed) = Some (AudioContext 24000)"
    by (simp add: connect_def initAudio_def mic_allowed_def disconnect_fields Let_def)
  have o: "audioContextRef ?s \<noteq> None" "nextStartTimeRef ?s = 5 + 1 / 24000"
    using a by (simp_all add: onopen_def Let_def connect_fields disconnect_fields n)
  have "\<not> interrupted (audio_payload ''AAA='')" "audio (audio_payload ''AAA='') = Some ''AAA=''"
    by (simp_all add: audio_payload_def)
  from onmessage_frame [OF o(1) this(2) _ decode_one_sample this(1), of "steady 3000" 0]
  have "node_when (last (started (fst (onmessage ?s (steady 3000) 0 (audio_payload ''AAA=''))))) =
          5 + 1 / 24000"
    by (simp add: o(2))
  with n a show ?thesis
    by (simp add: connect_fields disconnect_fields onmessage_interrupted_signal)
qed

text \<open>
  C8 (amended). For every sample \<open>x\<close> with \<open>-1 \<le> x < 1\<close> the stored element is
  \<open>x * 32768\<close> truncated, the reverse conversion divides it by 32768, and the result is
  within 1/32768 of \<open>x\<close>; for a non-empty array of such samples the blob made by
  \<^verbatim>\<open>createBlob\<close> decodes to one channel holding these results in order.
\<close>

theorem float_pcm16_round_trip:
  assumes "\<forall>x\<in>set data. - 1 \<le> x \<and> x < 1"
  shows "list_all2 (\<lambda>x y. sint (floatToPcm16 x) = toInteger (x * 32768)
                        \<and> y = real_of_int (sint (floatToPcm16 x)) / 32768
                        \<and> \<bar>y - x\<bar> < 1 / 32768)
           data (map (\<lambda>x. pcm16ToFloat (floatToPcm16 x)) data)
         \<and> (data \<noteq> [] \<longrightarrow>
              (\<exists>buffer. decodeInbound (blob_data (createBlob data)) = Inr buffer
                 \<and> channelData buffer = [map (\<lambda>x. pcm16ToFloat (floatToPcm16 x)) data]))"
proof -
  have "list_all2 (\<lambda>x y. sint (floatToPcm16 x) = toInteger (x * 32768)
                        \<and> y = real_of_int (sint (floatToPcm16 x)) / 32768
                        \<and> \<bar>y - x\<bar> < 1 / 32768)
           data (map (\<lambda>x. pcm16ToFloat (floatToPcm16 x)) data)"
    unfolding list_all2_map2
  proof (rule list_all2_same [THEN iffD2], intro ballI conjI)
    fix x assume "x \<in> set data"
    with assms have x: "- 1 \<le> x" "x < 1" by auto
    show "sint (floatToPcm16 x) = toInteger (x * 32768)" using x by (rule sint_floatToPcm16)
    show "pcm16ToFloat (floatToPcm16 x) = real_of_int (sint (floatToPcm16 x)) / 32768"
      by (simp add: pcm16ToFloat_def)
    show "\<bar>pcm16ToFloat (floatToPcm16 x) - x\<bar> < 1 / 32768" using x by (rule sample_round_trip)
  qed
  then show ?thesis by (simp add: decode_createBlob)
qed

text \<open>Three samples, the lower end of the range among them.\<close>

theorem float_pcm16_round_trip_witness:
  "list_all (\<lambda>x. - 1 \<le> x \<and> x < 1) [1 / 2, - 1, 3 / 10 :: real]
   \<and> list_all2 (\<lambda>x y. \<bar>y - x\<bar> < 1 / 32768) [1 / 2, - 1, 3 / 10]
        (map (\<lambda>x. pcm16ToFloat (floatToPcm16 x)) [1 / 2, - 1, 3 / 10])
   \<and> map (\<lambda>x. sint (floatToPcm16 x)) [1 / 2, - 1, 3 / 10] = [16384, - 32768, 9830]"
proof -
  have h: "\<forall>x\<in>set [1 / 2, - 1, 3 / 10 :: real]. - 1 \<le> x \<and> x < 1"
    by simp
  have t: "toInteger (3 / 10 * 32768) = 9830"
    unfolding toInteger_def by (simp; linarith)
  from float_pcm16_round_trip [OF h] h t show ?thesis
    by (simp add: toInteger_def)
qed

text \<open>
  C8 as stated fails at full scale: \<open>1 * 32768\<close> does not fit 16 bits and wraps to
  \<open>-32768\<close>, which converts back to \<open>-1\<close>.
\<close>

theorem float_pcm16_full_scale_counterexample:
  "(1::real) \<in> {- 1 .. 1} \<and> \<not> \<bar>pcm16ToFloat (floatToPcm16 1) - 1\<bar> < 1 / 32768"
  by (simp add: pcm16ToFloat_def floatToPcm16_def toInteger_def)

text \<open>
  C9. Decoding the transport encoding of a byte buffer gives the buffer back, of any length;
  through the 16-bit view, samples come back exactly.
\<close>

theorem transport_round_trip:
  "decodeAudioData (encodeAudioData x) = Inr x
   \<and> (case decodeAudioData (encodeAudioData (bytes_of_int16 samples)) of
         Inl e \<Rightarrow> False
       | Inr bytes \<Rightarrow> int16_of_bytes bytes = Inr samples)"
  by (simp add: decode_encode int16_bytes_int16)

text \<open>Four bytes, and the two samples \<open>1\<close> and \<open>-1\<close>.\<close>

theorem transport_round_trip_witness:
  "decodeAudioData (encodeAudioData [0, 1, 2, 255]) = Inr [0, 1, 2, 255]
   \<and> (case decodeAudioData (encodeAudioData (bytes_of_int16 [1, - 1])) of
         Inl e \<Rightarrow> False
       | Inr bytes \<Rightarrow> int16_of_bytes bytes = Inr [1, - 1])"
  by (rule transport_round_trip)

text \<open>
  C10. \<^verbatim>\<open>connect\<close> empties the transcript and both buffers and leaves the partial view;
  the close, error and open callbacks leave it too, and so does a click after a close or an
  error, and a message without transcription text, turn-complete or interrupted signal.
  The view changes with the next transcription text and is cleared by a turn-complete or
  an interrupted signal.
\<close>

theorem partial_view_survives_reconnect:
  "transcript (connect s env) = []
   \<and> currentInputBuffer (connect s env) = []
   \<and> currentOutputBuffer (connect s env) = []
   \<and> realtimeText (connect s env) = realtimeText s
   \<and> realtimeText (onclose s) = realtimeText s
   \<and> realtimeText (onerror s) = realtimeText s
   \<and> realtimeText (onopen s) = realtimeText s
   \<and> realtimeText (onClick (onclose s) env) = realtimeText s
   \<and> realtimeText (onClick (onerror s) env) = realtimeText s
   \<and> realtimeText (onopen (connect (onclose s) env)) = realtimeText s
   \<and> realtimeText (onopen (connect (onerror s) env)) = realtimeText s
   \<and> ((inputTranscription m = None \<or> inputTranscription m = Some [])
        \<and> (outputTranscription m = None \<or> outputTranscription m = Some [])
        \<and> \<not> turnComplete m \<and> \<not> interrupted m
        \<longrightarrow> realtimeText (fst (onmessage s now t m)) = realtimeText s)
   \<and> (text \<noteq> [] \<longrightarrow>
         realtimeText (fst (onmessage s now t (input_delta text)))
           = Some (User, currentInputBuffer s @ text)
       \<and> realtimeText (fst (onmessage s now t (output_delta text)))
           = Some (Model, currentOutputBuffer s @ text))
   \<and> realtimeText (fst (onmessage s now t turn_complete_signal)) = None
   \<and> realtimeText (fst (onmessage s now t interrupted_signal)) = None"
proof -
  have d: "text \<noteq> [] \<longrightarrow>
         realtimeText (fst (onmessage s now t (input_delta text)))
           = Some (User, currentInputBuffer s @ text)
       \<and> realtimeText (fst (onmessage s now t (output_delta text)))
           = Some (Model, currentOutputBuffer s @ text)"
    by (simp add: onmessage_def transcript_branches_def onInputTranscription_def
        onOutputTranscription_def onTurnComplete_def onAudio_def onInterrupted_def
        input_delta_def output_delta_def)
  have o: "realtimeText (onopen s') = realtimeText s'" for s'
    by (simp add: onopen_def Let_def)
  show ?thesis
    using d onmessage_quiet [of m s now t]
    by (simp add: connect_fields onclose_fields onerror_fields o onClick_realtimeText
        onmessage_turn_complete_signal onmessage_interrupted_signal)
qed

text \<open>
  The agent's partial text \<open>Hel\<close> is on display when the remote side closes; it is still
  there after the next \<^verbatim>\<open>connect\<close>, the open callback and an audio frame.
\<close>

theorem partial_view_survives_reconnect_witness:
  "realtimeText (fst (onmessage open_session (steady 1000) 0 (output_delta ''Hel''))) = Some (Model, ''Hel'')
   \<and> realtimeText (onopen (connect (onclose
         (fst (onmessage open_session (steady 1000) 0 (output_delta ''Hel'')))) mic_allowed))
       = Some (Model, ''Hel'')
   \<and> realtimeText (fst (onmessage (onopen (connect (onclose
         (fst (onmessage open_session (steady 1000) 0 (output_delta ''Hel'')))) mic_allowed))
         (steady 2000) 0 (audio_payload ''AAA=''))) = Some (Model, ''Hel'')"
proof -
  let ?s = "fst (onmessage open_session (steady 1000) 0 (output_delta ''Hel''))"
  let ?r = "onopen (connect (onclose ?s) mic_allowed)"
  have b: "currentOutputBuffer open_session = []"
    by (simp add: open_session_eq LiveVoice_init_def)
  from partial_view_survives_reconnect [of open_session mic_allowed interrupted_signal "steady 1000" 0 "''Hel''"] b
  have p: "realtimeText ?s = Some (Model, ''Hel'')" by simp
  from partial_view_survives_reconnect [of ?s mic_allowed]
  have r: "realtimeText ?r = realtimeText ?s" by blast
  have q: "(inputTranscription (audio_payload ''AAA='') = None \<or> inputTranscription (audio_payload ''AAA='') = Some [])
        \<and> (outputTranscription (audio_payload ''AAA='') = None \<or> outputTranscription (audio_payload ''AAA='') = Some [])
        \<and> \<not> turnComplete (audio_payload ''AAA='') \<and> \<not> interrupted (audio_payload ''AAA='')"
    by (simp add: audio_payload_def)
  from partial_view_survives_reconnect [of ?r mic_allowed "audio_payload ''AAA=''" "steady 2000" 0] q
  have "realtimeText (fst (onmessage ?r (steady 2000) 0 (audio_payload ''AAA=''))) = realtimeText ?r"
    by blast
  with p r show ?thesis by simp
qed

end
